theory Spec2Isabelle
  imports Complex_Main "HOL-Library.Word"
begin

section \<open>Python values, errors and the built-ins the adapter relies on\<close>

text \<open>
  The exceptions that can leave the adapter.  \<open>NotFittedError\<close> is scikit-learn's
  exception; it inherits from both \<open>ValueError\<close> and \<open>AttributeError\<close>.
  \<open>OSError\<close> and \<open>RuntimeError\<close> stand for failures of the collaborators
  (file writing, the trainer, the trained model).  \<open>InvalidKey\<close> is what pandas
  raises for a key that holds a slice, such as \<open>(slice(None), 0)\<close>: \<open>TypeError\<close>,
  \<open>InvalidIndexError\<close> or \<open>KeyError\<close>, depending on the versions of pandas and
  Python; none of them is a \<open>ValueError\<close>.
\<close>

datatype error =
    ValueError | TypeError | AttributeError | IndexError | KeyError
  | NotFittedError | OSError | RuntimeError | InvalidKey

text \<open>\<open>isinstance(e, ValueError)\<close> and \<open>isinstance(e, NotFittedError)\<close>.\<close>

definition is_ValueError :: "error \<Rightarrow> bool" where
  "is_ValueError e = (e = ValueError \<or> e = NotFittedError)"

definition is_NotFittedError :: "error \<Rightarrow> bool" where
  "is_NotFittedError e = (e = NotFittedError)"

text \<open>
  Cells of a table and values of trainer options.  A Python \<open>str\<close> is a \<open>string\<close>,
  one \<open>char\<close> per code point (text is restricted to code points below 256).
\<close>

datatype pyval = PyStr string | PyInt int

subsection \<open>\<open>str(n)\<close> and \<open>int(s)\<close>\<close>

definition digit_char :: "nat \<Rightarrow> char" where
  "digit_char d = char_of (48 + d)"

definition is_digit :: "char \<Rightarrow> bool" where
  "is_digit c = (48 \<le> (of_char c :: nat) \<and> (of_char c :: nat) \<le> 57)"

definition digit_val :: "char \<Rightarrow> nat" where
  "digit_val c = of_char c - 48"

text \<open>The decimal digits of a natural number, most significant first.\<close>

fun str_nat :: "nat \<Rightarrow> string" where
  "str_nat n = (if n < 10 then [digit_char n]
                else str_nat (n div 10) @ [digit_char (n mod 10)])"

declare str_nat.simps [simp del]

text \<open>\<open>str(n)\<close>, which is also what \<open>'{}'.format(n)\<close> inserts for an integer.\<close>

definition py_str :: "int \<Rightarrow> string" where
  "py_str i = (if i < 0 then CHR ''-'' # str_nat (nat (- i)) else str_nat (nat i))"

text \<open>
  The white space that \<open>int(s)\<close> removes at both ends: tab, line feed, vertical tab,
  form feed, carriage return and space, and the code points 133 and 160.  The separators
  28 to 31 are not removed.
\<close>

definition is_space :: "char \<Rightarrow> bool" where
  "is_space c = (let k = (of_char c :: nat) in
     (9 \<le> k \<and> k \<le> 13) \<or> k = 32 \<or> k = 133 \<or> k = 160)"

definition strip :: "string \<Rightarrow> string" where
  "strip s = rev (dropWhile is_space (rev (dropWhile is_space s)))"

text \<open>
  The digit part of an integer literal: a non-empty run of decimal digits in which single
  underscores may stand between two digits.
\<close>

fun digit_run :: "string \<Rightarrow> bool" where
  "digit_run [] = False"
| "digit_run [c] = is_digit c"
| "digit_run (c # d # r) =
     (is_digit c \<and> (if d = CHR ''_'' then digit_run r else digit_run (d # r)))"

definition digits_value :: "string \<Rightarrow> nat" where
  "digits_value s =
     foldl (\<lambda>acc c. 10 * acc + digit_val c) 0 (filter (\<lambda>c. c \<noteq> CHR ''_'') s)"

text \<open>
  \<open>int(s)\<close> in base ten: raises \<open>ValueError\<close> on anything that is not a literal.
  The length of a literal is not bounded here; interpreters that limit the number of digits
  of a conversion (4300 by default, never fewer than 640) raise \<open>ValueError\<close> beyond it.
\<close>

definition py_int :: "string \<Rightarrow> error + int" where
  "py_int s =
     (let t = strip s;
          neg = (case t of [] \<Rightarrow> False | c # r \<Rightarrow> c = CHR ''-'');
          body = (case t of [] \<Rightarrow> []
                  | c # r \<Rightarrow> if c = CHR ''-'' \<or> c = CHR ''+'' then r else t)
      in if digit_run body
         then Inr (if neg then - int (digits_value body) else int (digits_value body))
         else Inl ValueError)"

section \<open>Labels\<close>

text \<open>The prefix of \<open>'__label__{}'.format(lbl)\<close>.\<close>

definition label_prefix :: string where
  "label_prefix = ''__label__''"

definition format_label :: "int \<Rightarrow> string" where
  "format_label lbl = label_prefix @ py_str lbl"

text \<open>\<open>_clean_label\<close>: \<open>int(ft_label[9:])\<close>.\<close>

definition clean_label :: "string \<Rightarrow> error + int" where
  "clean_label ft_label = py_int (drop 9 ft_label)"

section \<open>Tables\<close>

text \<open>
  numpy element types.  A fixed-width text type has a byte order and a width in
  characters; \<open>'<U26'\<close> is little-endian text of width 26.
\<close>

datatype byteorder = LittleEndian | BigEndian

datatype dtype = DObject | DUnicode byteorder nat | DInt64 | DFloat64 | DBool

text \<open>
  A positional array: a rectangular two-dimensional numpy array, \<open>nrows\<close> by
  \<open>ncols\<close>, with the cell at row \<open>r\<close> and column \<open>c\<close> given by \<open>cell r c\<close>.
\<close>

record ndarray =
  dtype :: dtype
  nrows :: nat
  ncols :: nat
  cell :: "nat \<Rightarrow> nat \<Rightarrow> pyval"

text \<open>
  A labeled table: a pandas DataFrame of \<open>frame_rows\<close> rows, its columns in declared
  order, the cell of a column at row \<open>r\<close> given by \<open>cvalue r\<close>.  A column label is
  any hashable Python value; strings and integers (the default labels) are modelled, and
  several columns may carry the same label.
\<close>

datatype col_label = LblStr string | LblInt int

record column =
  cname :: col_label
  cdtype :: dtype
  cvalue :: "nat \<Rightarrow> pyval"

record dataframe =
  frame_rows :: nat
  columns :: "column list"

datatype table = Positional ndarray | Labeled dataframe

text \<open>The number of rows (samples) of a table.\<close>

definition table_nrows :: "table \<Rightarrow> nat" where
  "table_nrows X = (case X of Positional a \<Rightarrow> nrows a | Labeled df \<Rightarrow> frame_rows df)"

text \<open>
  The label array \<open>y\<close>: a numpy array of 64-bit signed integers with its shape.
\<close>

record int_array =
  shape :: "nat list"
  items :: "64 word list"

text \<open>
  What indexing a table gives: a one-dimensional sequence of cells, or, when a label
  selects several columns of a DataFrame, the DataFrame of those columns.  Iterating a
  DataFrame yields its column labels.
\<close>

datatype selection = Series "pyval list" | SubFrame dataframe

definition label_val :: "col_label \<Rightarrow> pyval" where
  "label_val l = (case l of LblStr s \<Rightarrow> PyStr s | LblInt i \<Rightarrow> PyInt i)"

definition iterate :: "selection \<Rightarrow> pyval list" where
  "iterate sel = (case sel of Series vs \<Rightarrow> vs
                  | SubFrame df \<Rightarrow> map (\<lambda>c. label_val (cname c)) (columns df))"

text \<open>\<open>X[:, i]\<close> on a two-dimensional array; a negative index counts from the end.\<close>

definition np_column :: "ndarray \<Rightarrow> int \<Rightarrow> error + selection" where
  "np_column a i =
     (let n = int (ncols a); j = (if i < 0 then i + n else i)
      in if 0 \<le> j \<and> j < n
         then Inr (Series (map (\<lambda>r. cell a r (nat j)) [0..<nrows a]))
         else Inl IndexError)"

text \<open>
  \<open>X[name]\<close> on a DataFrame: the cells of the column that carries the label, top to
  bottom; the DataFrame of the columns that carry it when there are several; \<open>KeyError\<close>
  when there is none.
\<close>

definition df_getitem :: "dataframe \<Rightarrow> col_label \<Rightarrow> error + selection" where
  "df_getitem df nm =
     (case filter (\<lambda>c. cname c = nm) (columns df) of
        [] \<Rightarrow> Inl KeyError
      | [c] \<Rightarrow> Inr (Series (map (cvalue c) [0..<frame_rows df]))
      | c # d # cs \<Rightarrow> Inr (SubFrame (df\<lparr>columns := c # d # cs\<rparr>)))"

section \<open>The collaborators\<close>

text \<open>
  The trained model: \<open>model.predict(text, k)\<close> returns the labels and their scores,
  or raises.  The type of scores is left open.
\<close>

type_synonym 'p ft_model = "pyval \<Rightarrow> nat \<Rightarrow> error + (string list \<times> 'p list)"

type_synonym options = "string \<rightharpoonup> pyval"

text \<open>
  What surrounds one call of the adapter: the module constant \<open>TEMP_DIR\<close>, the number
  drawn by \<open>randint(1, 99999)\<close>, numpy's conversion \<open>np.array(X)\<close> of a DataFrame,
  \<open>dump_xy_to_fasttext_format\<close> (\<open>None\<close> when it returns) and fastText's
  \<open>train_supervised\<close>.
\<close>

record 'p env =
  TEMP_DIR :: string
  randint :: int
  np_array :: "dataframe \<Rightarrow> ndarray"
  dump_xy_to_fasttext_format :: "selection \<Rightarrow> int_array \<Rightarrow> string \<Rightarrow> error option"
  train_supervised :: "string \<Rightarrow> options \<Rightarrow> error + 'p ft_model"

text \<open>The calls that leave the adapter during \<open>fit\<close>, in order.\<close>

datatype event =
    DumpCall selection int_array string
  | TrainCall string options

text \<open>\<open>os.path.join\<close> on POSIX paths.\<close>

definition path_join :: "string \<Rightarrow> string \<Rightarrow> string" where
  "path_join a b =
     (if b \<noteq> [] \<and> hd b = CHR ''/'' then b
      else if a = [] \<or> last a = CHR ''/'' then a @ b
      else a @ ''/'' @ b)"

definition temp_dataset_fpath :: "'p env \<Rightarrow> string" where
  "temp_dataset_fpath env =
     path_join (TEMP_DIR env) (''temp_ft_trainset_'' @ py_str (randint env) @ ''.ft'')"

section \<open>The adapter\<close>

text \<open>The four classes, each with its locator.\<close>

datatype variant =
    FirstColFtClassifier
  | IdxBasedFtClassifier int
  | FirstObjFtClassifier
  | ColLblBasedFtClassifier string

text \<open>
  The instance.  An attribute that \<open>fit\<close> has not assigned yet does not exist on the
  object; it is \<open>None\<close> here, and reading it raises \<open>AttributeError\<close>.
  The fields \<open>classes\<close>, \<open>num_classes\<close> and \<open>class_labels\<close> are the
  attributes of these names with a trailing underscore.
\<close>

record 'p adapter =
  variant :: variant
  kwargs :: options
  classes :: "int list option"
  num_classes :: "nat option"
  class_labels :: "string list option"
  temp_trainset_fpath :: "string option"
  model :: "'p ft_model option"

text \<open>\<open>FtClassifierABC.__init__(self, **kwargs)\<close>.\<close>

definition base_init :: "variant \<Rightarrow> options \<Rightarrow> 'p adapter" where
  "base_init v kw =
     \<lparr>variant = v, kwargs = kw(''input'' := None), classes = None, num_classes = None,
      class_labels = None, temp_trainset_fpath = None, model = None\<rparr>"

text \<open>
  The constructors.  The two classes with a locator define their own \<open>__init__\<close>,
  which calls \<open>super().__init__()\<close> with no argument.
\<close>

fun init :: "variant \<Rightarrow> options \<Rightarrow> 'p adapter" where
  "init FirstColFtClassifier kw = base_init FirstColFtClassifier kw"
| "init (IdxBasedFtClassifier input_ix) kw = base_init (IdxBasedFtClassifier input_ix) Map.empty"
| "init FirstObjFtClassifier kw = base_init FirstObjFtClassifier kw"
| "init (ColLblBasedFtClassifier input_col_lbl) kw =
     base_init (ColLblBasedFtClassifier input_col_lbl) Map.empty"

subsection \<open>Validation\<close>

text \<open>The class attribute \<open>ALLOWED_DTYPES_ = ['<U26', object]\<close>.\<close>

definition ALLOWED_DTYPES :: "dtype list" where
  "ALLOWED_DTYPES = [DUnicode LittleEndian 26, DObject]"

text \<open>The body of \<open>_validate_x\<close> for an object that has a \<open>dtype\<close>.\<close>

definition validate_array :: "ndarray \<Rightarrow> error + ndarray" where
  "validate_array a =
     (if dtype a \<notin> set ALLOWED_DTYPES then Inl ValueError else Inr a)"

text \<open>
  \<open>_validate_x\<close>.  A DataFrame has no attribute \<open>dtype\<close>: the \<open>AttributeError\<close> is
  caught and the check runs again on \<open>np.array(X)\<close>, which has one.
\<close>

definition validate_x :: "'p env \<Rightarrow> table \<Rightarrow> error + ndarray" where
  "validate_x env X =
     (case X of Positional a \<Rightarrow> validate_array a
      | Labeled df \<Rightarrow> validate_array (np_array env df))"

text \<open>\<open>_validate_y\<close>.\<close>

definition validate_y :: "int_array \<Rightarrow> error + int_array" where
  "validate_y y = (if length (shape y) \<noteq> 1 then Inl ValueError else Inr y)"

text \<open>
  scikit-learn's \<open>unique_labels\<close> on an array of 64-bit signed integers: the distinct
  labels in increasing order.
\<close>

definition unique_labels :: "int_array \<Rightarrow> int list" where
  "unique_labels y = sort (remdups (map sint (items y)))"

subsection \<open>The input column\<close>

text \<open>The loop of \<open>FirstObjFtClassifier._input_col\<close> over \<open>X.dtypes.items()\<close>.\<close>

fun first_object_column :: "column list \<Rightarrow> col_label option" where
  "first_object_column [] = None"
| "first_object_column (c # cs) =
     (if cdtype c = DObject then Some (cname c) else first_object_column cs)"

text \<open>Python's truth value of a column label.\<close>

definition truthy :: "col_label \<Rightarrow> bool" where
  "truthy l = (case l of LblStr s \<Rightarrow> s \<noteq> [] | LblInt i \<Rightarrow> i \<noteq> 0)"

text \<open>
  \<open>_input_col\<close> of the four classes.  A table of the other kind fails inside numpy or
  pandas: a DataFrame rejects the key \<open>(slice(None), i)\<close>, an array has no \<open>dtypes\<close>
  and rejects a string index.
\<close>

fun input_col :: "variant \<Rightarrow> table \<Rightarrow> error + selection" where
  "input_col FirstColFtClassifier (Positional a) = np_column a 0"
| "input_col FirstColFtClassifier (Labeled df) = Inl InvalidKey"
| "input_col (IdxBasedFtClassifier input_ix) (Positional a) = np_column a input_ix"
| "input_col (IdxBasedFtClassifier input_ix) (Labeled df) = Inl InvalidKey"
| "input_col FirstObjFtClassifier (Positional a) = Inl AttributeError"
| "input_col FirstObjFtClassifier (Labeled df) =
     (case first_object_column (columns df) of
        None \<Rightarrow> Inl ValueError
      | Some input_col_name \<Rightarrow>
          if truthy input_col_name then df_getitem df input_col_name else Inl ValueError)"
| "input_col (ColLblBasedFtClassifier input_col_lbl) (Positional a) = Inl IndexError"
| "input_col (ColLblBasedFtClassifier input_col_lbl) (Labeled df) =
     df_getitem df (LblStr input_col_lbl)"

subsection \<open>\<open>fit\<close>\<close>

text \<open>
  \<open>fit\<close> returns the instance as the call leaves it, the calls it made to the
  collaborators, and the exception it raised (\<open>None\<close> when it returns \<open>self\<close>).
  The call \<open>train_supervised(input=..., **self.kwargs)\<close> is a \<open>TypeError\<close> before
  the trainer is entered when \<open>self.kwargs\<close> has a key \<open>input\<close> of its own.
\<close>

definition fit ::
  "'p env \<Rightarrow> 'p adapter \<Rightarrow> table \<Rightarrow> int_array \<Rightarrow> 'p adapter \<times> event list \<times> error option"
where
  "fit env self X y =
     (case validate_x env X of
        Inl e \<Rightarrow> (self, [], Some e)
      | Inr _ \<Rightarrow>
     (case validate_y y of
        Inl e \<Rightarrow> (self, [], Some e)
      | Inr y' \<Rightarrow>
     (let cls = unique_labels y';
          path = temp_dataset_fpath env;
          self1 = self\<lparr>classes := Some cls,
                      num_classes := Some (length cls),
                      class_labels := Some (map format_label cls),
                      temp_trainset_fpath := Some path\<rparr>
      in case input_col (variant self1) X of
        Inl e \<Rightarrow> (self1, [], Some e)
      | Inr col \<Rightarrow>
     (case dump_xy_to_fasttext_format env col y' path of
        Some e \<Rightarrow> (self1, [DumpCall col y' path], Some e)
      | None \<Rightarrow>
     if kwargs self1 ''input'' \<noteq> None then (self1, [DumpCall col y' path], Some TypeError)
     else
     (case train_supervised env path (kwargs self1) of
        Inl e \<Rightarrow> (self1, [DumpCall col y' path, TrainCall path (kwargs self1)], Some e)
      | Inr m \<Rightarrow>
          (self1\<lparr>model := Some m\<rparr>,
           [DumpCall col y' path, TrainCall path (kwargs self1)], None))))))"

subsection \<open>Prediction\<close>

text \<open>A list comprehension whose body may raise: the first exception ends it.\<close>

fun traverse :: "('a \<Rightarrow> error + 'b) \<Rightarrow> 'a list \<Rightarrow> error + 'b list" where
  "traverse f [] = Inr []"
| "traverse f (x # xs) =
     (case f x of
        Inl e \<Rightarrow> Inl e
      | Inr v \<Rightarrow> (case traverse f xs of Inl e \<Rightarrow> Inl e | Inr vs \<Rightarrow> Inr (v # vs)))"

text \<open>\<open>_predict(self, X, k)\<close>; \<open>check_is_fitted(self, ['model'])\<close> comes first.\<close>

definition predict_topk ::
  "'p env \<Rightarrow> 'p adapter \<Rightarrow> table \<Rightarrow> nat \<Rightarrow> error + (string list \<times> 'p list) list"
where
  "predict_topk env self X k =
     (case model self of
        None \<Rightarrow> Inl NotFittedError
      | Some m \<Rightarrow>
     (case validate_x env X of
        Inl e \<Rightarrow> Inl e
      | Inr _ \<Rightarrow>
     (case input_col (variant self) X of
        Inl e \<Rightarrow> Inl e
      | Inr col \<Rightarrow> traverse (\<lambda>text. m text k) (iterate col))))"

text \<open>\<open>res[0][0]\<close>: the first label of a result.\<close>

definition top_label :: "string list \<times> 'p list \<Rightarrow> error + string" where
  "top_label res = (case fst res of [] \<Rightarrow> Inl IndexError | l # _ \<Rightarrow> Inr l)"

definition predict :: "'p env \<Rightarrow> 'p adapter \<Rightarrow> table \<Rightarrow> error + int list" where
  "predict env self X =
     (case predict_topk env self X 1 of
        Inl e \<Rightarrow> Inl e
      | Inr results \<Rightarrow>
          traverse (\<lambda>res. case top_label res of Inl e \<Rightarrow> Inl e
                          | Inr l \<Rightarrow> clean_label l) results)"

text \<open>\<open>list.index\<close>: the first position of a value, or \<open>ValueError\<close>.\<close>

fun list_index :: "'a list \<Rightarrow> 'a \<Rightarrow> error + nat" where
  "list_index [] v = Inl ValueError"
| "list_index (x # xs) v =
     (if x = v then Inr 0
      else case list_index xs v of Inl e \<Rightarrow> Inl e | Inr i \<Rightarrow> Inr (Suc i))"

text \<open>
  \<open>_format_probas\<close>.  \<open>sorted\<close> computes the key of every pair, in order, then sorts
  stably by key.
\<close>

definition sort_key_fn :: "'p adapter \<Rightarrow> string \<times> 'p \<Rightarrow> error + nat" where
  "sort_key_fn self x =
     (case class_labels self of
        None \<Rightarrow> Inl AttributeError
      | Some labels \<Rightarrow> list_index labels (fst x))"

definition format_probas :: "'p adapter \<Rightarrow> string list \<times> 'p list \<Rightarrow> error + 'p list" where
  "format_probas self result =
     (let lbl_prob_pairs = zip (fst result) (snd result)
      in case traverse (sort_key_fn self) lbl_prob_pairs of
           Inl e \<Rightarrow> Inl e
         | Inr keys \<Rightarrow>
             Inr (map (\<lambda>kx. snd (snd kx)) (sort_key fst (zip keys lbl_prob_pairs))))"

text \<open>
  \<open>predict_proba\<close>.  The argument \<open>self.num_classes_\<close> is read before \<open>_predict\<close> is
  entered.
\<close>

definition predict_proba :: "'p env \<Rightarrow> 'p adapter \<Rightarrow> table \<Rightarrow> error + 'p list list" where
  "predict_proba env self X =
     (case num_classes self of
        None \<Rightarrow> Inl AttributeError
      | Some k \<Rightarrow>
     (case predict_topk env self X k of
        Inl e \<Rightarrow> Inl e
      | Inr results \<Rightarrow> traverse (format_probas self) results))"

section \<open>Concrete inputs\<close>

text \<open>
  A model that knows both labels and ranks \<open>1\<close> first, and a model that returns one
  result only, whatever \<open>k\<close> is.  In the example world \<open>np.array\<close> turns a DataFrame
  into an array of dtype object, as numpy does when a column holds strings.
\<close>

definition full_model :: "real ft_model" where
  "full_model text k = Inr ([''__label__1'', ''__label__0''], [9 / 10, 1 / 10])"

definition short_model :: "real ft_model" where
  "short_model text k = Inr ([''__label__1''], [9 / 10])"

definition example_env :: "real ft_model \<Rightarrow> real env" where
  "example_env m =
     \<lparr>TEMP_DIR = ''/home/user/.temp'', randint = 7,
      np_array = (\<lambda>df. \<lparr>dtype = DObject, nrows = frame_rows df,
                        ncols = length (columns df),
                        cell = (\<lambda>r c. cvalue (columns df ! c) r)\<rparr>),
      dump_xy_to_fasttext_format = (\<lambda>col y path. None),
      train_supervised = (\<lambda>path kw. Inr m)\<rparr>"

text \<open>The array \<open>[['good'], ['bad']]\<close> of dtype object, and the labels \<open>[1, 0]\<close>.\<close>

definition example_X :: table where
  "example_X =
     Positional \<lparr>dtype = DObject, nrows = 2, ncols = 1,
                 cell = (\<lambda>r c. if r = 0 then PyStr ''good'' else PyStr ''bad'')\<rparr>"

definition example_y :: int_array where
  "example_y = \<lparr>shape = [2], items = [1, 0]\<rparr>"

text \<open>The same labels as a 2 by 1 array.\<close>

definition example_y_2d :: int_array where
  "example_y_2d = \<lparr>shape = [2, 1], items = [1, 0]\<rparr>"


text \<open>
  \<open>pd.DataFrame([['good', 1], ['bad', 2]])\<close>: the columns get the default labels
  \<open>0\<close> and \<open>1\<close>; column \<open>0\<close> holds strings and has dtype object.
\<close>

definition example_frame :: dataframe where
  "example_frame =
     \<lparr>frame_rows = 2,
      columns =
       [\<lparr>cname = LblInt 0, cdtype = DObject,
         cvalue = (\<lambda>r. if r = 0 then PyStr ''good'' else PyStr ''bad'')\<rparr>,
        \<lparr>cname = LblInt 1, cdtype = DInt64,
         cvalue = (\<lambda>r. if r = 0 then PyInt 1 else PyInt 2)\<rparr>]\<rparr>"

text \<open>
  \<open>pd.DataFrame({'text': ['good', 'bad'], 'other': [1, 2]})\<close>, and a frame of three
  rows whose two columns are both labelled \<open>text\<close>:
  \<open>pd.DataFrame([['a', 'b'], ['c', 'd'], ['e', 'f']], columns=['text', 'text'])\<close>.
\<close>

definition text_frame :: dataframe where
  "text_frame =
     \<lparr>frame_rows = 2,
      columns =
       [\<lparr>cname = LblStr ''text'', cdtype = DObject,
         cvalue = (\<lambda>r. if r = 0 then PyStr ''good'' else PyStr ''bad'')\<rparr>,
        \<lparr>cname = LblStr ''other'', cdtype = DInt64,
         cvalue = (\<lambda>r. if r = 0 then PyInt 1 else PyInt 2)\<rparr>]\<rparr>"

definition twin_frame :: dataframe where
  "twin_frame =
     \<lparr>frame_rows = 3,
      columns =
       [\<lparr>cname = LblStr ''text'', cdtype = DObject,
         cvalue = (\<lambda>r. if r = 0 then PyStr ''a'' else if r = 1 then PyStr ''c''
                        else PyStr ''e'')\<rparr>,
        \<lparr>cname = LblStr ''text'', cdtype = DObject,
         cvalue = (\<lambda>r. if r = 0 then PyStr ''b'' else if r = 1 then PyStr ''d''
                        else PyStr ''f'')\<rparr>]\<rparr>"

text \<open>The options \<open>input='x.txt', epoch=5\<close>.\<close>

definition example_options :: options where
  "example_options = [''input'' \<mapsto> PyStr ''x.txt'', ''epoch'' \<mapsto> PyInt 5]"

text \<open>
  The positional-first adapter built without options and fitted on the example, in a world
  whose trainer returns the model \<open>m\<close>.
\<close>

definition example_fitted :: "real ft_model \<Rightarrow> real adapter" where
  "example_fitted m =
     fst (fit (example_env m) (init FirstColFtClassifier Map.empty) example_X example_y)"

text \<open>The labeled-by-name adapter for the label \<open>text\<close>, fitted on \<open>text_frame\<close>.\<close>

definition example_fitted_by_label :: "real ft_model \<Rightarrow> real adapter" where
  "example_fitted_by_label m =
     fst (fit (example_env m) (init (ColLblBasedFtClassifier ''text'') Map.empty)
            (Labeled text_frame) example_y)"

text \<open>The element type that \<open>_validate_x\<close> looks at, and the array it returns.\<close>

definition as_array :: "'p env \<Rightarrow> table \<Rightarrow> ndarray" where
  "as_array env X = (case X of Positional a \<Rightarrow> a | Labeled df \<Rightarrow> np_array env df)"


section \<open>Decimal round trip\<close>

lemma digit_char_is_digit: "d < 10 \<Longrightarrow> is_digit (digit_char d)"
  by (simp add: is_digit_def digit_char_def)

lemma digit_val_digit_char: "d < 10 \<Longrightarrow> digit_val (digit_char d) = d"
  by (simp add: digit_val_def digit_char_def)

lemma is_digit_not_space: "is_digit c \<Longrightarrow> \<not> is_space c"
  by (auto simp: is_digit_def is_space_def Let_def)

lemma is_digit_not_underscore: "is_digit c \<Longrightarrow> c \<noteq> CHR ''_''"
  by (auto simp: is_digit_def)

lemma is_digit_not_sign: "is_digit c \<Longrightarrow> c \<noteq> CHR ''-'' \<and> c \<noteq> CHR ''+''"
  by (auto simp: is_digit_def)

lemma str_nat_digits: "list_all is_digit (str_nat n)"
proof (induction n rule: str_nat.induct)
  case (1 n)
  show ?case
  proof (cases "n < 10")
    case True
    then show ?thesis by (simp add: str_nat.simps [of n] digit_char_is_digit)
  next
    case False
    with 1 show ?thesis by (simp add: str_nat.simps [of n] digit_char_is_digit)
  qed
qed

lemma str_nat_nonempty: "str_nat n \<noteq> []"
  by (subst str_nat.simps) simp

lemma digit_run_all_digits: "list_all is_digit s \<Longrightarrow> s \<noteq> [] \<Longrightarrow> digit_run s"
  by (induction s rule: digit_run.induct) (auto dest: is_digit_not_underscore)

lemma filter_underscore_digits:
  "list_all is_digit s \<Longrightarrow> filter (\<lambda>c. c \<noteq> CHR ''_'') s = s"
  by (induction s) (auto dest: is_digit_not_underscore)

lemma digits_value_str_nat: "digits_value (str_nat n) = n"
proof (induction n rule: str_nat.induct)
  case (1 n)
  show ?case
  proof (cases "n < 10")
    case True
    then show ?thesis
      using is_digit_not_underscore [OF digit_char_is_digit, of n]
      by (simp add: str_nat.simps [of n] digits_value_def digit_val_digit_char)
  next
    case False
    then have ih: "digits_value (str_nat (n div 10)) = n div 10" using 1 by simp
    have dig: "list_all is_digit (str_nat (n div 10) @ [digit_char (n mod 10)])"
      by (simp add: str_nat_digits digit_char_is_digit)
    have "digits_value (str_nat n)
        = 10 * digits_value (str_nat (n div 10)) + digit_val (digit_char (n mod 10))"
      using False filter_underscore_digits [OF dig]
        filter_underscore_digits [OF str_nat_digits, of "n div 10"]
      by (simp add: str_nat.simps [of n] digits_value_def del: filter_append filter.simps)
    then show ?thesis by (simp add: ih digit_val_digit_char)
  qed
qed

lemma strip_digits_ends:
  assumes "s \<noteq> []" "\<not> is_space (hd s)" "\<not> is_space (last s)"
  shows "strip s = s"
proof -
  from assms have a: "dropWhile is_space s = s" by (cases s) auto
  from assms have "rev s \<noteq> []" "\<not> is_space (hd (rev s))" by (simp_all add: hd_rev)
  then have "dropWhile is_space (rev s) = rev s" by (cases "rev s") auto
  with a show ?thesis by (simp add: strip_def)
qed

lemma str_nat_hd_digit: "is_digit (hd (str_nat n))"
  using str_nat_digits [of n] str_nat_nonempty [of n]
  by (cases "str_nat n") auto

lemma str_nat_last_digit: "is_digit (last (str_nat n))"
  using str_nat_digits [of n] str_nat_nonempty [of n]
  by (auto simp: list_all_iff)

lemma py_int_str_nat: "py_int (str_nat n) = Inr (int n)"
proof -
  have s: "strip (str_nat n) = str_nat n"
    by (rule strip_digits_ends)
      (simp_all add: str_nat_nonempty is_digit_not_space str_nat_hd_digit str_nat_last_digit)
  obtain c r where cr: "str_nat n = c # r" using str_nat_nonempty [of n] by (cases "str_nat n") auto
  then have "is_digit c" using str_nat_hd_digit [of n] by simp
  then have ns: "c \<noteq> CHR ''-''" "c \<noteq> CHR ''+''" using is_digit_not_sign by auto
  have run: "digit_run (c # r)"
    using digit_run_all_digits [OF str_nat_digits str_nat_nonempty, of n] cr by simp
  have val: "digits_value (c # r) = n" using digits_value_str_nat [of n] cr by simp
  show ?thesis using ns run val s [unfolded cr] by (simp add: py_int_def cr)
qed

lemma py_int_minus_str_nat: "0 < n \<Longrightarrow> py_int (CHR ''-'' # str_nat n) = Inr (- int n)"
proof -
  have sp: "\<not> is_space (CHR ''-'')" by (simp add: is_space_def)
  have s: "strip (CHR ''-'' # str_nat n) = CHR ''-'' # str_nat n"
    by (rule strip_digits_ends)
      (simp_all add: sp str_nat_nonempty is_digit_not_space str_nat_last_digit)
  have run: "digit_run (str_nat n)"
    by (rule digit_run_all_digits [OF str_nat_digits str_nat_nonempty])
  show ?thesis using run by (simp add: py_int_def s digits_value_str_nat)
qed

lemma py_int_py_str: "py_int (py_str n) = Inr n"
  by (cases "n < 0") (simp_all add: py_str_def py_int_str_nat py_int_minus_str_nat)

section \<open>Lists of results\<close>

lemma traverse_Inr_iff:
  "traverse f xs = Inr ys \<longleftrightarrow> list_all2 (\<lambda>x y. f x = Inr y) xs ys"
proof (induction xs arbitrary: ys)
  case Nil
  then show ?case by auto
next
  case (Cons x xs)
  show ?case
  proof (cases "f x")
    case (Inl e)
    then show ?thesis by (auto simp: list_all2_Cons1)
  next
    case (Inr v)
    then show ?thesis using Cons.IH
      by (cases "traverse f xs") (auto simp: list_all2_Cons1)
  qed
qed

lemma traverse_Inl_elem:
  "traverse f xs = Inl e \<Longrightarrow> \<exists>x \<in> set xs. f x = Inl e"
  by (induction xs) (auto split: sum.splits)

lemma traverse_total:
  "(\<And>x. x \<in> set xs \<Longrightarrow> \<exists>y. f x = Inr y) \<Longrightarrow> \<exists>ys. traverse f xs = Inr ys"
  by (induction xs) (fastforce split: sum.splits)+

lemma list_index_Inr:
  "list_index xs v = Inr i \<Longrightarrow> i < length xs \<and> xs ! i = v"
  by (induction xs arbitrary: i) (auto split: if_splits sum.splits)

lemma list_index_Inl:
  "list_index xs v = Inl e \<longleftrightarrow> v \<notin> set xs \<and> e = ValueError"
  by (induction xs) (auto split: sum.splits)

lemma list_index_mem:
  "v \<in> set xs \<Longrightarrow> \<exists>i. list_index xs v = Inr i"
  by (cases "list_index xs v") (auto simp: list_index_Inl)

lemma traverse_length: "traverse f xs = Inr ys \<Longrightarrow> length ys = length xs"
  by (simp add: traverse_Inr_iff list_all2_lengthD)

lemma traverse_nth:
  "traverse f xs = Inr ys \<Longrightarrow> i < length xs \<Longrightarrow> f (xs ! i) = Inr (ys ! i)"
  by (auto simp: traverse_Inr_iff dest: list_all2_nthD)

lemma format_probas_unfold:
  "format_probas self (ls, ps) =
     (case traverse (sort_key_fn self) (zip ls ps) of
        Inl e \<Rightarrow> Inl e
      | Inr keys \<Rightarrow> Inr (map (\<lambda>kx. snd (snd kx)) (sort_key fst (zip keys (zip ls ps)))))"
  by (simp add: format_probas_def Let_def)

lemma sort_key_fn_Inl:
  "class_labels self = Some labels \<Longrightarrow>
   sort_key_fn self x = Inl e \<longleftrightarrow> fst x \<notin> set labels \<and> e = ValueError"
  by (simp add: sort_key_fn_def list_index_Inl)

lemma format_probas_Inl:
  assumes "class_labels self = Some labels"
  shows "format_probas self (ls, ps) = Inl e \<longleftrightarrow>
         (\<exists>x \<in> set (zip ls ps). fst x \<notin> set labels) \<and> e = ValueError"
proof
  assume "format_probas self (ls, ps) = Inl e"
  then have "traverse (sort_key_fn self) (zip ls ps) = Inl e"
    by (simp add: format_probas_unfold split: sum.splits)
  then obtain x where "x \<in> set (zip ls ps)" "sort_key_fn self x = Inl e"
    using traverse_Inl_elem by blast
  then show "(\<exists>x \<in> set (zip ls ps). fst x \<notin> set labels) \<and> e = ValueError"
    using sort_key_fn_Inl [OF assms] by blast
next
  assume r: "(\<exists>x \<in> set (zip ls ps). fst x \<notin> set labels) \<and> e = ValueError"
  then obtain x where x: "x \<in> set (zip ls ps)" "fst x \<notin> set labels" by blast
  have "\<not> (\<exists>keys. traverse (sort_key_fn self) (zip ls ps) = Inr keys)"
  proof
    assume "\<exists>keys. traverse (sort_key_fn self) (zip ls ps) = Inr keys"
    then obtain keys where k: "traverse (sort_key_fn self) (zip ls ps) = Inr keys" ..
    from x(1) obtain i where i: "i < length (zip ls ps)" "zip ls ps ! i = x"
      by (auto simp: in_set_conv_nth)
    from traverse_nth [OF k i(1)] i(2) have "sort_key_fn self x = Inr (keys ! i)" by simp
    moreover have "sort_key_fn self x = Inl ValueError"
      using sort_key_fn_Inl [OF assms, of x ValueError] x(2) by simp
    ultimately show False by simp
  qed
  then obtain e' where e': "traverse (sort_key_fn self) (zip ls ps) = Inl e'"
    by (cases "traverse (sort_key_fn self) (zip ls ps)") auto
  then obtain x' where "x' \<in> set (zip ls ps)" "sort_key_fn self x' = Inl e'"
    using traverse_Inl_elem by blast
  then have "e' = ValueError" using sort_key_fn_Inl [OF assms] by blast
  with e' r show "format_probas self (ls, ps) = Inl e"
    by (simp add: format_probas_unfold)
qed

lemma format_probas_length:
  "format_probas self (ls, ps) = Inr v \<Longrightarrow> length v = min (length ls) (length ps)"
  by (auto simp: format_probas_unfold dest: traverse_length split: sum.splits)

lemma format_probas_sorted_nth:
  assumes cl: "class_labels self = Some labels"
    and d: "distinct ls" and s: "set ls = set labels" and dl: "distinct labels"
    and len: "length ps = length ls"
  shows "\<exists>v. format_probas self (ls, ps) = Inr v \<and> length v = length labels
           \<and> (\<forall>j < length labels. (labels ! j, v ! j) \<in> set (zip ls ps))"
proof -
  let ?pairs = "zip ls ps"
  have n: "length ls = length labels"
    using d s dl by (metis distinct_card)
  have mf: "map fst ?pairs = ls" using len by simp
  have "\<exists>keys. traverse (sort_key_fn self) ?pairs = Inr keys"
  proof (rule traverse_total)
    fix x assume "x \<in> set ?pairs"
    then have "fst x \<in> set ls" by (metis set_zip_leftD prod.collapse)
    then have "fst x \<in> set labels" using s by simp
    then show "\<exists>y. sort_key_fn self x = Inr y"
      using list_index_mem by (simp add: sort_key_fn_def cl)
  qed
  then obtain keys where k: "traverse (sort_key_fn self) ?pairs = Inr keys" ..
  have lk: "length keys = length ?pairs" using traverse_length [OF k] .
  have key: "\<And>i. i < length ?pairs \<Longrightarrow> list_index labels (fst (?pairs ! i)) = Inr (keys ! i)"
    using traverse_nth [OF k] by (simp add: sort_key_fn_def cl)
  have keyP: "\<And>i. i < length ls \<Longrightarrow> keys ! i < length labels \<and> labels ! (keys ! i) = ls ! i"
  proof -
    fix i assume i: "i < length ls"
    then have "list_index labels (ls ! i) = Inr (keys ! i)" using key [of i] len by simp
    then show "keys ! i < length labels \<and> labels ! (keys ! i) = ls ! i"
      by (rule list_index_Inr)
  qed
  have lk': "length keys = length ls" using lk len by simp
  have dk: "distinct keys"
    unfolding distinct_conv_nth
  proof (intro allI impI)
    fix i j assume "i < length keys" "j < length keys" "i \<noteq> j"
    then have "ls ! i \<noteq> ls ! j" using d lk' by (simp add: nth_eq_iff_index_eq)
    then show "keys ! i \<noteq> keys ! j"
      using keyP [of i] keyP [of j] \<open>i < length keys\<close> \<open>j < length keys\<close> lk' by metis
  qed
  have sub: "set keys \<subseteq> {0..<length labels}"
    using keyP lk' by (auto simp: in_set_conv_nth)
  have sk: "set keys = {0..<length labels}"
  proof (rule card_subset_eq [OF _ sub])
    show "finite {0..<length labels}" by simp
    show "card (set keys) = card {0..<length labels}"
      using dk lk' n by (simp add: distinct_card)
  qed
  let ?zs = "zip keys ?pairs"
  let ?S = "sort_key fst ?zs"
  have mz: "map fst ?zs = keys" using lk by simp
  have "distinct (map fst ?zs)" using dk mz by simp
  then have dz: "distinct ?zs" "inj_on fst (set ?zs)" by (simp_all add: distinct_map)
  have "distinct (map fst ?S)"
    using dz by (simp add: distinct_map)
  moreover have "sorted (map fst ?S)" by (rule sorted_sort_key)
  moreover have "set (map fst ?S) = {0..<length labels}"
    using sk mz by (metis set_map set_sort)
  ultimately have mS: "map fst ?S = [0..<length labels]"
    by (metis sorted_distinct_set_unique sorted_upt distinct_upt set_upt)
  have lS: "length ?S = length labels" using mS by (metis length_map length_upt diff_zero)
  have v: "format_probas self (ls, ps) = Inr (map (\<lambda>kx. snd (snd kx)) ?S)"
    by (simp add: format_probas_unfold k)
  have "\<forall>j < length labels. (labels ! j, map (\<lambda>kx. snd (snd kx)) ?S ! j) \<in> set ?pairs"
  proof (intro allI impI)
    fix j assume j: "j < length labels"
    have fj: "fst (?S ! j) = j"
      using mS j lS by (metis nth_map nth_upt add_0)
    have "?S ! j \<in> set ?zs" using j lS by (metis nth_mem set_sort)
    then obtain i where i: "i < length ?zs" "?zs ! i = ?S ! j"
      by (auto simp: in_set_conv_nth)
    then have il: "i < length ls" using len by simp
    have e: "?S ! j = (keys ! i, (ls ! i, ps ! i))" using i il len lk' by simp
    then have "keys ! i = j" using fj by simp
    then have "labels ! j = ls ! i" using keyP [OF il] by simp
    moreover have "(ls ! i, ps ! i) \<in> set ?pairs"
      using il len by (metis in_set_zip fst_conv snd_conv)
    ultimately show "(labels ! j, map (\<lambda>kx. snd (snd kx)) ?S ! j) \<in> set ?pairs"
      using e j lS by simp
  qed
  with v lS show ?thesis by auto
qed

section \<open>Facts about \<open>fit\<close> and the registry\<close>

lemma format_label_inj: "format_label a = format_label b \<Longrightarrow> a = b"
proof -
  assume "format_label a = format_label b"
  then have "py_str a = py_str b" by (simp add: format_label_def)
  then have "py_int (py_str a) = py_int (py_str b)" by simp
  then show "a = b" by (simp add: py_int_py_str)
qed

lemma unique_labels_props:
  "sorted (unique_labels y)" "distinct (unique_labels y)"
  "set (unique_labels y) = sint ` set (items y)"
  "length (unique_labels y) = card (set (items y))"
proof -
  show "sorted (unique_labels y)" by (simp add: unique_labels_def)
  show d: "distinct (unique_labels y)" by (simp add: unique_labels_def)
  show s: "set (unique_labels y) = sint ` set (items y)" by (simp add: unique_labels_def)
  have "inj_on (sint :: 64 word \<Rightarrow> int) (set (items y))"
    by (rule inj_onI) (rule signed_word_eqI)
  then show "length (unique_labels y) = card (set (items y))"
    using distinct_card [OF d] s by (simp add: card_image)
qed

lemma fit_success:
  assumes "fit env self0 X y = (self, evs, None)"
  shows "classes self = Some (unique_labels y)"
    and "num_classes self = Some (length (unique_labels y))"
    and "class_labels self = Some (map format_label (unique_labels y))"
    and "\<exists>m. model self = Some m"
    and "variant self = variant self0"
  using assms
  by (auto simp: fit_def validate_y_def Let_def split: sum.splits option.splits if_splits)

text \<open>A table that fails validation is rejected by every entry point.\<close>

lemma fit_invalid_x: "validate_x env X = Inl e \<Longrightarrow> fit env self X y = (self, [], Some e)"
  by (simp add: fit_def)

lemma predict_invalid_x:
  "model self = Some m \<Longrightarrow> validate_x env X = Inl e \<Longrightarrow> predict env self X = Inl e"
  by (simp add: predict_def predict_topk_def)

lemma predict_proba_invalid_x:
  "model self = Some m \<Longrightarrow> num_classes self = Some k \<Longrightarrow> validate_x env X = Inl e \<Longrightarrow>
     predict_proba env self X = Inl e"
  by (simp add: predict_proba_def predict_topk_def)

lemma predict_topk_fitted:
  assumes "model self = Some m" "validate_x env X = Inr a"
    "input_col (variant self) X = Inr col"
  shows "predict_topk env self X k = traverse (\<lambda>text. m text k) (iterate col)"
  using assms by (simp add: predict_topk_def)

section \<open>What the extraction selects\<close>

lemma df_getitem_Series:
  "df_getitem df nm = Inr (Series vs) \<longleftrightarrow>
     (\<exists>c. filter (\<lambda>c. cname c = nm) (columns df) = [c]
          \<and> vs = map (cvalue c) [0..<frame_rows df])"
  by (auto simp: df_getitem_def split: list.splits)

lemma df_getitem_SubFrame:
  "df_getitem df nm = Inr (SubFrame d) \<longleftrightarrow>
     (\<exists>c c' cs. filter (\<lambda>c. cname c = nm) (columns df) = c # c' # cs
          \<and> d = df\<lparr>columns := c # c' # cs\<rparr>)"
  by (auto simp: df_getitem_def split: list.splits)

lemma df_getitem_KeyError:
  "df_getitem df nm = Inl e \<longleftrightarrow> filter (\<lambda>c. cname c = nm) (columns df) = [] \<and> e = KeyError"
  by (auto simp: df_getitem_def split: list.splits)

lemma np_column_Series:
  "np_column a i = Inr col \<Longrightarrow>
     \<exists>j < ncols a. col = Series (map (\<lambda>r. cell a r j) [0..<nrows a])"
proof (cases "i < 0")
  case True
  assume "np_column a i = Inr col"
  with True have "nat (i + int (ncols a)) < ncols a
      \<and> col = Series (map (\<lambda>r. cell a r (nat (i + int (ncols a)))) [0..<nrows a])"
    by (auto simp: np_column_def Let_def split: if_splits)
  then show ?thesis by blast
next
  case False
  assume "np_column a i = Inr col"
  with False have "nat i < ncols a
      \<and> col = Series (map (\<lambda>r. cell a r (nat i)) [0..<nrows a])"
    by (auto simp: np_column_def Let_def split: if_splits)
  then show ?thesis by blast
qed

lemma input_col_positional:
  "input_col v (Positional a) = Inr col \<Longrightarrow>
     \<exists>j < ncols a. col = Series (map (\<lambda>r. cell a r j) [0..<nrows a])"
  by (cases v) (auto dest: np_column_Series)

lemma input_col_labeled:
  "input_col v (Labeled df) = Inr (Series vs) \<Longrightarrow>
     \<exists>c nm. filter (\<lambda>c. cname c = nm) (columns df) = [c]
          \<and> vs = map (cvalue c) [0..<frame_rows df]"
  by (cases v) (auto simp: df_getitem_Series split: option.splits if_splits)

text \<open>A selected column has one cell per row of the table.\<close>

lemma input_col_Series_rows:
  assumes "input_col v X = Inr (Series vs)"
  shows "length vs = table_nrows X"
proof (cases X)
  case (Positional a)
  then show ?thesis using input_col_positional [of v a "Series vs"] assms
    by (auto simp: table_nrows_def)
next
  case (Labeled df)
  then show ?thesis using input_col_labeled [of v df vs] assms
    by (auto simp: table_nrows_def)
qed

text \<open>When the labeled-first-text extraction raises.\<close>

lemma first_object_column_None:
  "first_object_column cs = None \<longleftrightarrow> list_all (\<lambda>c. cdtype c \<noteq> DObject) cs"
  by (induction cs) auto

lemma first_object_column_Some:
  "first_object_column cs = Some nm \<Longrightarrow> filter (\<lambda>c. cname c = nm) cs \<noteq> []"
  by (induction cs) (auto split: if_splits)

lemma df_getitem_present:
  "filter (\<lambda>c. cname c = nm) (columns df) \<noteq> [] \<Longrightarrow> \<exists>sel. df_getitem df nm = Inr sel"
  by (auto simp: df_getitem_def split: list.splits)

lemma first_obj_error_iff:
  "(\<exists>e. input_col FirstObjFtClassifier (Labeled df) = Inl e) \<longleftrightarrow>
     (case first_object_column (columns df) of None \<Rightarrow> True | Some nm \<Rightarrow> \<not> truthy nm)"
  using first_object_column_Some [of "columns df"] df_getitem_present [of _ df]
  by (fastforce split: option.splits)

section \<open>Prediction on a selected column\<close>

text \<open>
  When the extraction selects one column: whenever \<open>predict\<close> returns, it returns one
  integer per row, in row order, and the integer of row \<open>i\<close> is \<open>int\<close> of the model's first
  label for the cell of that row (queried with \<open>k = 1\<close>) without its first nine characters.
\<close>

lemma predict_rows:
  assumes m: "model self = Some m"
    and valid: "validate_x env X = Inr a" "input_col (variant self) X = Inr (Series vs)"
  shows "length vs = table_nrows X
       \<and> (\<forall>ys. predict env self X = Inr ys \<longrightarrow>
            length ys = table_nrows X
            \<and> (\<forall>i < length ys. \<exists>l ls ps.
                  m (vs ! i) 1 = Inr (l # ls, ps) \<and> py_int (drop 9 l) = Inr (ys ! i)))"
proof (intro conjI allI impI)
  let ?dec = "\<lambda>res :: string list \<times> 'a list.
     case top_label res of Inl e \<Rightarrow> Inl e | Inr l \<Rightarrow> clean_label l"
  show rows: "length vs = table_nrows X" by (rule input_col_Series_rows [OF valid(2)])
  have tk: "predict_topk env self X 1 = traverse (\<lambda>text. m text 1) vs"
    using predict_topk_fitted [OF m valid] by (simp add: iterate_def)
  have dec: "?dec r = Inr n \<Longrightarrow> \<exists>l ls. fst r = l # ls \<and> py_int (drop 9 l) = Inr n" for r n
    by (cases "fst r") (auto simp: top_label_def clean_label_def)
  fix ys assume p: "predict env self X = Inr ys"
  then obtain rs where rs: "traverse (\<lambda>text. m text 1) vs = Inr rs"
      and ys: "traverse ?dec rs = Inr ys"
    by (auto simp: predict_def tk simp del: One_nat_def split: sum.splits)
  have l1: "length rs = length vs" by (rule traverse_length [OF rs])
  have l2: "length ys = length rs" by (rule traverse_length [OF ys])
  show "length ys = table_nrows X" using l1 l2 rows by simp
  fix i assume i: "i < length ys"
  then have ir: "i < length rs" "i < length vs" using l1 l2 by simp_all
  have a: "m (vs ! i) 1 = Inr (rs ! i)" using traverse_nth [OF rs ir(2)] .
  have "?dec (rs ! i) = Inr (ys ! i)" using traverse_nth [OF ys ir(1)] .
  then obtain l ls where "fst (rs ! i) = l # ls" "py_int (drop 9 l) = Inr (ys ! i)"
    using dec by blast
  then have "m (vs ! i) 1 = Inr (l # ls, snd (rs ! i)) \<and> py_int (drop 9 l) = Inr (ys ! i)"
    using a by (metis prod.collapse)
  then show "\<exists>l ls ps. m (vs ! i) 1 = Inr (l # ls, ps) \<and> py_int (drop 9 l) = Inr (ys ! i)"
    by blast
qed

text \<open>
  After \<open>fit\<close> has returned, the registry consulted by \<open>predict_proba\<close> is the list of
  label strings of the distinct labels of \<open>y\<close> in increasing order.  When the extraction
  selects one column and the model's result for every row names every label of the registry
  exactly once, with one score each, \<open>predict_proba\<close> returns one vector per row, each of
  length the number of distinct labels, whose entry \<open>j\<close> is the score the model paired with
  the \<open>j\<close>-th label in increasing order.
\<close>

lemma predict_proba_rows:
  assumes fitted: "fit env0 self0 Xtrain y = (self, evs, None)"
    and m: "model self = Some m"
    and valid: "validate_x env X = Inr a" "input_col (variant self) X = Inr (Series rows)"
    and contract: "\<forall>text \<in> set rows. \<exists>ls ps.
         m text (length (unique_labels y)) = Inr (ls, ps) \<and> distinct ls
         \<and> set ls = set (map format_label (unique_labels y)) \<and> length ps = length ls"
  shows "class_labels self = Some (map format_label (unique_labels y))
     \<and> sorted (unique_labels y) \<and> set (unique_labels y) = sint ` set (items y)
     \<and> (\<exists>vs. predict_proba env self X = Inr vs \<and> length vs = table_nrows X
          \<and> (\<forall>i < length vs. length (vs ! i) = card (set (items y))
               \<and> (\<forall>j < card (set (items y)). \<exists>ls ps.
                     m (rows ! i) (card (set (items y))) = Inr (ls, ps)
                     \<and> (format_label (unique_labels y ! j), vs ! i ! j) \<in> set (zip ls ps))))"
proof -
  let ?cls = "unique_labels y"
  let ?labels = "map format_label ?cls"
  let ?k = "length ?cls"
  have cl: "class_labels self = Some ?labels" and nc: "num_classes self = Some ?k"
    using fit_success [OF fitted] by simp_all
  have kc: "?k = card (set (items y))" by (rule unique_labels_props)
  have nr: "length rows = table_nrows X" by (rule input_col_Series_rows [OF valid(2)])
  have tk: "predict_topk env self X ?k = traverse (\<lambda>text. m text ?k) rows"
    using predict_topk_fitted [OF m valid] by (simp add: iterate_def)
  have dl: "distinct ?labels"
    using unique_labels_props(2) [of y]
    by (simp add: distinct_map inj_on_def format_label_inj)
  have "\<exists>rs. traverse (\<lambda>text. m text ?k) rows = Inr rs"
    by (rule traverse_total) (use contract in blast)
  then obtain rs where rs: "traverse (\<lambda>text. m text ?k) rows = Inr rs" ..
  have lrs: "length rs = length rows" by (rule traverse_length [OF rs])
  have row: "m (rows ! i) ?k = Inr (rs ! i)" if "i < length rows" for i
    using traverse_nth [OF rs that] .
  have good: "\<exists>v. format_probas self r = Inr v \<and> length v = length ?labels
         \<and> (\<forall>j < length ?labels. (?labels ! j, v ! j) \<in> set (zip (fst r) (snd r)))"
    if "r \<in> set rs" for r
  proof -
    from that obtain i where i: "i < length rs" "rs ! i = r" by (auto simp: in_set_conv_nth)
    then have "m (rows ! i) ?k = Inr r" using row lrs by simp
    moreover have "rows ! i \<in> set rows" using i lrs by simp
    ultimately obtain ls ps where lp: "r = (ls, ps)" "distinct ls" "set ls = set ?labels"
        "length ps = length ls"
      using contract by fastforce
    show ?thesis
      using format_probas_sorted_nth [OF cl lp(2) lp(3) dl lp(4)] lp(1) by simp
  qed
  have "\<exists>vs. traverse (format_probas self) rs = Inr vs"
    by (rule traverse_total) (use good in blast)
  then obtain vs where vs: "traverse (format_probas self) rs = Inr vs" ..
  have pp: "predict_proba env self X = Inr vs"
    by (simp add: predict_proba_def nc tk rs vs)
  have lvs: "length vs = table_nrows X" using traverse_length [OF vs] lrs nr by simp
  have each: "length (vs ! i) = card (set (items y))
       \<and> (\<forall>j < card (set (items y)). \<exists>ls ps.
             m (rows ! i) (card (set (items y))) = Inr (ls, ps)
             \<and> (format_label (?cls ! j), vs ! i ! j) \<in> set (zip ls ps))"
    if i: "i < length vs" for i
  proof -
    have ir: "i < length rs" using i traverse_length [OF vs] by simp
    have fp: "format_probas self (rs ! i) = Inr (vs ! i)" using traverse_nth [OF vs ir] .
    obtain v where v: "format_probas self (rs ! i) = Inr v" "length v = length ?labels"
        "\<forall>j < length ?labels. (?labels ! j, v ! j) \<in> set (zip (fst (rs ! i)) (snd (rs ! i)))"
      using good [of "rs ! i"] ir by auto
    have vv: "v = vs ! i" using v(1) fp by simp
    have mr: "m (rows ! i) (card (set (items y))) = Inr (fst (rs ! i), snd (rs ! i))"
      using row [of i] ir lrs kc by simp
    have "\<exists>ls ps. m (rows ! i) (card (set (items y))) = Inr (ls, ps)
             \<and> (format_label (?cls ! j), vs ! i ! j) \<in> set (zip ls ps)"
      if j: "j < card (set (items y))" for j
    proof (intro exI conjI)
      show "m (rows ! i) (card (set (items y))) = Inr (fst (rs ! i), snd (rs ! i))"
        by (rule mr)
      show "(format_label (?cls ! j), vs ! i ! j) \<in> set (zip (fst (rs ! i)) (snd (rs ! i)))"
        using v(3) vv j kc by simp
    qed
    then show ?thesis using v(2) vv kc by simp
  qed
  show ?thesis
    using cl unique_labels_props(1,3) [of y] pp lvs each by blast
qed

section \<open>The concrete inputs evaluated\<close>

lemma py_str_7: "py_str 7 = ''7''"
  by code_simp

lemma format_label_0: "format_label 0 = ''__label__0''"
  by code_simp

lemma format_label_1: "format_label 1 = ''__label__1''"
  by code_simp

lemma py_int_1: "py_int ''1'' = Inr 1"
  by code_simp

lemma unique_labels_example_y: "unique_labels example_y = [0, 1]"
  by (simp add: unique_labels_def example_y_def)

lemma temp_dataset_fpath_example:
  "temp_dataset_fpath (example_env m) = ''/home/user/.temp/temp_ft_trainset_7.ft''"
  by (simp add: temp_dataset_fpath_def example_env_def path_join_def py_str_7)

lemma input_col_example_X:
  "input_col FirstColFtClassifier example_X = Inr (Series [PyStr ''good'', PyStr ''bad''])"
  "input_col (IdxBasedFtClassifier 0) example_X = Inr (Series [PyStr ''good'', PyStr ''bad''])"
  by (simp_all add: example_X_def np_column_def upt_rec)

lemma input_col_text_frame:
  "input_col (ColLblBasedFtClassifier ''text'') (Labeled text_frame)
     = Inr (Series [PyStr ''good'', PyStr ''bad''])"
  by (simp add: text_frame_def df_getitem_def upt_rec)

lemma input_col_twin_frame:
  "input_col (ColLblBasedFtClassifier ''text'') (Labeled twin_frame)
     = Inr (SubFrame twin_frame)"
  by (simp add: twin_frame_def df_getitem_def)

lemma iterate_twin_frame: "iterate (SubFrame twin_frame) = [PyStr ''text'', PyStr ''text'']"
  by (simp add: iterate_def twin_frame_def label_val_def)

lemma validate_x_example_X:
  "validate_x env example_X = Inr (as_array env example_X)"
  by (simp add: validate_x_def validate_array_def as_array_def example_X_def
      ALLOWED_DTYPES_def)

lemma validate_x_example_frames:
  "validate_x (example_env m) (Labeled df) = Inr (as_array (example_env m) (Labeled df))"
  by (simp add: validate_x_def validate_array_def as_array_def example_env_def
      ALLOWED_DTYPES_def)

lemma example_fit_any:
  assumes v: "validate_x (example_env m) X = Inr arr"
    and c: "input_col (variant a) X = Inr col"
    and kw: "kwargs a ''input'' = None"
  shows "fit (example_env m) a X example_y =
     (a\<lparr>classes := Some [0, 1], num_classes := Some 2,
        class_labels := Some [''__label__0'', ''__label__1''],
        temp_trainset_fpath := Some ''/home/user/.temp/temp_ft_trainset_7.ft'',
        model := Some m\<rparr>,
      [DumpCall col example_y ''/home/user/.temp/temp_ft_trainset_7.ft'',
       TrainCall ''/home/user/.temp/temp_ft_trainset_7.ft'' (kwargs a)],
      None)"
proof -
  have y: "validate_y example_y = Inr example_y"
    by (simp add: validate_y_def example_y_def)
  have d: "dump_xy_to_fasttext_format (example_env m) col yy p = None" for col yy p
    by (simp add: example_env_def)
  have t: "train_supervised (example_env m) p kw = Inr m" for p kw
    by (simp add: example_env_def)
  show ?thesis
    by (simp add: fit_def v y c d t kw unique_labels_example_y
        temp_dataset_fpath_example format_label_0 format_label_1 Let_def)
qed

lemma example_fit:
  assumes "variant a = FirstColFtClassifier \<or> variant a = IdxBasedFtClassifier 0"
    and kw: "kwargs a ''input'' = None"
  shows "fit (example_env m) a example_X example_y =
     (a\<lparr>classes := Some [0, 1], num_classes := Some 2,
        class_labels := Some [''__label__0'', ''__label__1''],
        temp_trainset_fpath := Some ''/home/user/.temp/temp_ft_trainset_7.ft'',
        model := Some m\<rparr>,
      [DumpCall (Series [PyStr ''good'', PyStr ''bad'']) example_y
         ''/home/user/.temp/temp_ft_trainset_7.ft'',
       TrainCall ''/home/user/.temp/temp_ft_trainset_7.ft'' (kwargs a)],
      None)"
proof -
  have c: "input_col (variant a) example_X = Inr (Series [PyStr ''good'', PyStr ''bad''])"
    using assms input_col_example_X by auto
  show ?thesis by (rule example_fit_any [OF validate_x_example_X c kw])
qed

lemma example_fit_returns:
  "fit (example_env m) (init FirstColFtClassifier Map.empty) example_X example_y
   = (example_fitted m,
      [DumpCall (Series [PyStr ''good'', PyStr ''bad'']) example_y
         ''/home/user/.temp/temp_ft_trainset_7.ft'',
       TrainCall ''/home/user/.temp/temp_ft_trainset_7.ft'' Map.empty],
      None)"
  by (simp add: example_fitted_def example_fit base_init_def)

lemma example_fitted_fields:
  "model (example_fitted m) = Some m"
  "variant (example_fitted m) = FirstColFtClassifier"
  "num_classes (example_fitted m) = Some 2"
  "class_labels (example_fitted m) = Some [''__label__0'', ''__label__1'']"
  by (simp_all add: example_fitted_def example_fit base_init_def)

lemma example_fit_by_label:
  "fit (example_env m) (init (ColLblBasedFtClassifier ''text'') Map.empty)
     (Labeled text_frame) example_y
   = (example_fitted_by_label m,
      [DumpCall (Series [PyStr ''good'', PyStr ''bad'']) example_y
         ''/home/user/.temp/temp_ft_trainset_7.ft'',
       TrainCall ''/home/user/.temp/temp_ft_trainset_7.ft'' Map.empty],
      None)"
proof -
  let ?a = "base_init (ColLblBasedFtClassifier ''text'') Map.empty :: real adapter"
  have c: "input_col (variant ?a) (Labeled text_frame)
      = Inr (Series [PyStr ''good'', PyStr ''bad''])"
    by (simp add: base_init_def input_col_text_frame del: input_col.simps)
  have kw: "kwargs ?a ''input'' = None" by (simp add: base_init_def)
  show ?thesis
    using example_fit_any [OF validate_x_example_frames c kw, of m]
    by (simp add: example_fitted_by_label_def base_init_def)
qed

lemma example_fitted_by_label_fields:
  "model (example_fitted_by_label m) = Some m"
  "variant (example_fitted_by_label m) = ColLblBasedFtClassifier ''text''"
  "num_classes (example_fitted_by_label m) = Some 2"
  "class_labels (example_fitted_by_label m) = Some [''__label__0'', ''__label__1'']"
proof -
  let ?a = "base_init (ColLblBasedFtClassifier ''text'') Map.empty :: real adapter"
  have c: "input_col (variant ?a) (Labeled text_frame)
      = Inr (Series [PyStr ''good'', PyStr ''bad''])"
    by (simp add: base_init_def input_col_text_frame del: input_col.simps)
  have kw: "kwargs ?a ''input'' = None" by (simp add: base_init_def)
  note f = example_fit_any [OF validate_x_example_frames c kw, of m]
  show "model (example_fitted_by_label m) = Some m"
    "variant (example_fitted_by_label m) = ColLblBasedFtClassifier ''text''"
    "num_classes (example_fitted_by_label m) = Some 2"
    "class_labels (example_fitted_by_label m) = Some [''__label__0'', ''__label__1'']"
    by (simp_all add: example_fitted_by_label_def f) (simp_all add: base_init_def)
qed

lemma kwargs_init_input: "kwargs (init v kw) ''input'' = None"
  by (cases v) (simp_all add: base_init_def)

lemma fit_kwargs: "kwargs (fst (fit env self X y)) = kwargs self"
  by (simp add: fit_def Let_def split: sum.splits option.splits)

lemma fit_train_calls:
  "TrainCall p opts \<in> set (fst (snd (fit env self X y))) \<Longrightarrow>
     p = temp_dataset_fpath env \<and> opts = kwargs self \<and> opts ''input'' = None"
  by (auto simp: fit_def Let_def split: sum.splits option.splits if_splits)

lemma init_keeps_options:
  "kwargs (init FirstColFtClassifier kw) = kw(''input'' := None)"
  "kwargs (init FirstObjFtClassifier kw) = kw(''input'' := None)"
  by (simp_all add: base_init_def)

lemma init_drops_options:
  "kwargs (init (IdxBasedFtClassifier input_ix) kw) = Map.empty"
  "kwargs (init (ColLblBasedFtClassifier input_col_lbl) kw) = Map.empty"
  by (simp_all add: base_init_def)

text \<open>With a model that answers every registered label, the example gives full rows.\<close>

lemma predict_proba_full_example:
  "predict_proba (example_env full_model) (example_fitted full_model) example_X
   = Inr [[1 / 10, 9 / 10], [1 / 10, 9 / 10]]"
  by (simp add: predict_proba_def predict_topk_def example_fitted_fields validate_x_example_X
      input_col_example_X iterate_def full_model_def format_probas_def sort_key_fn_def)

lemma predict_full_example:
  "predict (example_env full_model) (example_fitted full_model) example_X = Inr [1, 1]"
  by (simp add: predict_def predict_topk_def example_fitted_fields validate_x_example_X
      input_col_example_X iterate_def full_model_def top_label_def clean_label_def py_int_1)

lemma predict_proba_rows_example:
  "\<exists>vs. predict_proba (example_env full_model) (example_fitted full_model) example_X = Inr vs
       \<and> length vs = table_nrows example_X"
proof -
  let ?E = "example_env full_model"
  let ?A = "example_fitted full_model"
  let ?rows = "[PyStr ''good'', PyStr ''bad'']"
  note f = example_fit_returns [of full_model]
  have m: "model ?A = Some full_model" by (rule example_fitted_fields)
  have v: "validate_x ?E example_X = Inr (as_array ?E example_X)"
    by (rule validate_x_example_X)
  have c: "input_col (variant ?A) example_X = Inr (Series ?rows)"
    by (simp add: example_fitted_fields input_col_example_X)
  have k: "\<forall>text \<in> set ?rows. \<exists>ls ps.
         full_model text (length (unique_labels example_y)) = Inr (ls, ps) \<and> distinct ls
         \<and> set ls = set (map format_label (unique_labels example_y))
         \<and> length ps = length ls"
    by (auto simp: full_model_def unique_labels_example_y format_label_0 format_label_1)
  from predict_proba_rows [OF f m v c k] show ?thesis by blast
qed

section \<open>The claims\<close>

text \<open>
  C1. The claim: for every fitted adapter and every valid table \<open>X\<close>, \<open>predict\<close> returns
  exactly one integer per row of \<open>X\<close>; the docstring of \<open>predict\<close> says the same, an
  array of shape \<open>[n_samples]\<close>.  The labeled-by-name adapter for the label \<open>text\<close>,
  fitted on a two-column frame, is given a frame of three rows whose two columns are both
  labelled \<open>text\<close>: the frame passes validation, \<open>X['text']\<close> is then a DataFrame, whose
  iteration yields its two column labels, and \<open>predict\<close> returns two integers for the
  three rows.
\<close>

theorem predict_twin_frame:
  "table_nrows (Labeled twin_frame) = 3
   \<and> model (example_fitted_by_label full_model) = Some full_model
   \<and> validate_x (example_env full_model) (Labeled twin_frame)
       = Inr (as_array (example_env full_model) (Labeled twin_frame))
   \<and> predict (example_env full_model) (example_fitted_by_label full_model)
       (Labeled twin_frame) = Inr [1, 1]"
proof -
  have "table_nrows (Labeled twin_frame) = 3"
    by (simp add: table_nrows_def twin_frame_def)
  moreover have "predict (example_env full_model) (example_fitted_by_label full_model)
       (Labeled twin_frame) = Inr [1, 1]"
    by (simp add: predict_def predict_topk_def example_fitted_by_label_fields
        validate_x_example_frames input_col_twin_frame iterate_twin_frame full_model_def
        top_label_def clean_label_def py_int_1 del: input_col.simps)
  ultimately show ?thesis
    by (simp add: example_fitted_by_label_fields validate_x_example_frames)
qed

text \<open>
  C2. The claim: for every fitted adapter and every valid table \<open>X\<close>, every row of
  \<open>predict_proba\<close> has as many entries as there are distinct labels seen by \<open>fit\<close>; the
  docstring of \<open>predict_proba\<close> says the same, an array of shape
  \<open>[n_samples, n_classes]\<close>.  The positional-first adapter fitted on two rows with the two
  labels \<open>1\<close> and \<open>0\<close>, whose model returns a single result for \<open>k = 2\<close>, returns rows of
  length one.
\<close>

theorem predict_proba_short_vectors:
  "num_classes (example_fitted short_model) = Some 2
   \<and> length (unique_labels example_y) = 2
   \<and> table_nrows example_X = 2
   \<and> predict_proba (example_env short_model) (example_fitted short_model) example_X
       = Inr [[9 / 10], [9 / 10]]"
proof -
  have "table_nrows example_X = 2"
    by (simp add: table_nrows_def example_X_def)
  moreover have "predict_proba (example_env short_model) (example_fitted short_model)
       example_X = Inr [[9 / 10], [9 / 10]]"
    by (simp add: predict_proba_def predict_topk_def example_fitted_fields
        validate_x_example_X input_col_example_X iterate_def short_model_def
        format_probas_def sort_key_fn_def)
  ultimately show ?thesis
    by (simp add: example_fitted_fields unique_labels_example_y)
qed

text \<open>
  C3. The claim: every adapter variant forwards every option given at construction, except
  \<open>input\<close>, to the trainer.  The positional-indexed class does not: built with the option
  \<open>epoch=5\<close> and fitted, it calls the trainer with no option at all.
\<close>

theorem idx_based_drops_options:
  "fst (snd (fit (example_env full_model)
       (init (IdxBasedFtClassifier 0) [''epoch'' \<mapsto> PyInt 5]) example_X example_y))
   = [DumpCall (Series [PyStr ''good'', PyStr ''bad'']) example_y
        ''/home/user/.temp/temp_ft_trainset_7.ft'',
      TrainCall ''/home/user/.temp/temp_ft_trainset_7.ft'' Map.empty]"
  by (simp add: example_fit base_init_def)



text \<open>
  C5. The claim as stated fails: with two classes recorded by \<open>fit\<close>, a result holding
  one registered label and its score is reordered without error into a vector of length one.
\<close>

theorem format_probas_short_result:
  "num_classes (example_fitted short_model) = Some 2
   \<and> length (fst ([''__label__1''], [9 / 10 :: real])) < 2
   \<and> format_probas (example_fitted short_model) ([''__label__1''], [9 / 10]) = Inr [9 / 10]"
  by (simp add: example_fitted_fields format_probas_def sort_key_fn_def)

text \<open>
  C5, amended. With the class registry in place, the reordering of a row's result fails
  exactly when the result holds a label that is not in the registry, and the error is then
  a \<open>ValueError\<close>; a result of registered labels, however few, is returned as a vector
  with one score per returned pair.
\<close>

theorem format_probas_failure:
  assumes "class_labels self = Some labels"
  shows "(format_probas self (ls, ps) = Inl ValueError
            \<longleftrightarrow> (\<exists>x \<in> set (zip ls ps). fst x \<notin> set labels))
       \<and> (\<forall>e. format_probas self (ls, ps) = Inl e \<longrightarrow> e = ValueError)
       \<and> (\<forall>v. format_probas self (ls, ps) = Inr v
            \<longrightarrow> length v = min (length ls) (length ps))"
  using format_probas_Inl [OF assms, of ls ps] format_probas_length [of self ls ps]
  by blast

theorem format_probas_failure_witness:
  "class_labels (example_fitted short_model) = Some [''__label__0'', ''__label__1'']
   \<and> format_probas (example_fitted short_model) ([''__label__7''], [1 / 2 :: real]) = Inl ValueError"
proof -
  let ?a = "example_fitted short_model"
  have h: "class_labels ?a = Some [''__label__0'', ''__label__1'']"
    by (rule example_fitted_fields)
  have x: "\<exists>x \<in> set (zip [''__label__7''] [1 / 2 :: real]).
             fst x \<notin> set [''__label__0'', ''__label__1'']"
    by simp
  show ?thesis
    using h x format_probas_failure [OF h, of "[''__label__7'']" "[1 / 2]"] by blast
qed

text \<open>
  C6. The claim: the labeled-first-text extraction raises \<open>ValueError\<close> if and only if the
  table has no column of the object type.  On a DataFrame with the default integer labels
  whose column \<open>0\<close> has the object type, the code raises \<open>ValueError\<close> although such a
  column exists: the label \<open>0\<close> is false in \<open>if input_col_name:\<close>.
\<close>

theorem first_obj_falsy_label:
  "input_col FirstObjFtClassifier (Labeled example_frame) = Inl ValueError
   \<and> cdtype (hd (columns example_frame)) = DObject"
  by (simp add: example_frame_def truthy_def)

text \<open>
  C7. The claim: \<open>predict\<close> and \<open>predict_proba\<close> before \<open>fit\<close> fail with a
  \<open>NotFittedError\<close>.  On a newly built adapter of any variant \<open>predict\<close> does, but
  \<open>predict_proba\<close> raises \<open>AttributeError\<close>, which is not a \<open>NotFittedError\<close>.
\<close>

theorem predict_proba_unfitted:
  "predict_proba env (init v kw) X = Inl AttributeError
   \<and> \<not> is_NotFittedError AttributeError
   \<and> predict env (init v kw) X = Inl NotFittedError"
  by (cases v)
    (simp_all add: predict_proba_def predict_def predict_topk_def base_init_def
      is_NotFittedError_def)

text \<open>
  C8. For every \<open>y\<close> whose shape does not have exactly one dimension, \<open>fit\<close> raises
  \<open>ValueError\<close>, having called neither the writer of the training file nor the trainer
  and having left the instance as it was.
\<close>

theorem fit_rejects_y_rank:
  "length (shape y) \<noteq> 1 \<Longrightarrow>
     fit env self X y = (self, [], Some ValueError) \<and> is_ValueError ValueError"
  by (simp add: fit_def validate_y_def validate_x_def validate_array_def is_ValueError_def
      split: sum.splits table.splits)

theorem fit_rejects_y_rank_witness:
  "length (shape example_y_2d) \<noteq> 1
   \<and> fit (example_env full_model) (init FirstColFtClassifier Map.empty) example_X example_y_2d
       = (init FirstColFtClassifier Map.empty, [], Some ValueError)"
proof -
  have h: "length (shape example_y_2d) \<noteq> 1" by (simp add: example_y_2d_def)
  show ?thesis
    using h fit_rejects_y_rank [OF h, of "example_env full_model"
        "init FirstColFtClassifier Map.empty" example_X]
    by simp
qed

text \<open>
  C9. For every variant and every options mapping given at construction, the stored options
  have no key \<open>input\<close>, \<open>fit\<close> leaves the stored options as they are, and every call of
  the trainer made by \<open>fit\<close> receives the adapter's own training-file path and options
  without the key \<open>input\<close>.
\<close>

theorem input_option_never_forwarded:
  fixes env :: "'p env"
  shows "kwargs (init v kw :: 'p adapter) ''input'' = None
   \<and> kwargs (fst (fit env (init v kw) X y)) = kwargs (init v kw :: 'p adapter)
   \<and> (\<forall>p opts. TrainCall p opts \<in> set (fst (snd (fit env (init v kw) X y)))
         \<longrightarrow> p = temp_dataset_fpath env \<and> opts ''input'' = None)"
proof (intro conjI allI impI)
  show "kwargs (init v kw :: 'p adapter) ''input'' = None" by (rule kwargs_init_input)
  show "kwargs (fst (fit env (init v kw) X y)) = kwargs (init v kw :: 'p adapter)"
    by (rule fit_kwargs)
next
  fix p opts
  assume "TrainCall p opts \<in> set (fst (snd (fit env (init v kw) X y)))"
  then have "p = temp_dataset_fpath env \<and> opts = kwargs (init v kw :: 'p adapter)
      \<and> opts ''input'' = None"
    by (rule fit_train_calls)
  then show "p = temp_dataset_fpath env" "opts ''input'' = None"
    by blast+
qed

theorem input_option_never_forwarded_witness:
  "TrainCall ''/home/user/.temp/temp_ft_trainset_7.ft'' (example_options(''input'' := None))
     \<in> set (fst (snd (fit (example_env full_model)
           (init FirstColFtClassifier example_options) example_X example_y)))
   \<and> example_options ''input'' = Some (PyStr ''x.txt'')
   \<and> ''/home/user/.temp/temp_ft_trainset_7.ft'' = temp_dataset_fpath (example_env full_model)
   \<and> (example_options(''input'' := None)) ''input'' = None
   \<and> (example_options(''input'' := None)) ''epoch'' = Some (PyInt 5)"
proof -
  have mem: "TrainCall ''/home/user/.temp/temp_ft_trainset_7.ft''
       (example_options(''input'' := None))
     \<in> set (fst (snd (fit (example_env full_model)
           (init FirstColFtClassifier example_options) example_X example_y)))"
    by (simp add: example_fit base_init_def)
  have opt: "example_options ''input'' = Some (PyStr ''x.txt'')"
     "(example_options(''input'' := None)) ''epoch'' = Some (PyInt 5)"
    by (simp_all add: example_options_def)
  show ?thesis
    using mem opt input_option_never_forwarded [of FirstColFtClassifier example_options
        "example_env full_model" example_X example_y]
    by blast
qed

text \<open>
  C10. Decoding is a left inverse of the label encoding: for every integer label \<open>n\<close>,
  \<open>_clean_label\<close> applied to the prefix followed by \<open>str(n)\<close> gives \<open>n\<close> back, and
  the nine characters that the decoder drops are exactly the prefix.
\<close>

theorem clean_label_format_label:
  "clean_label (format_label n) = Inr n
   \<and> length label_prefix = 9
   \<and> drop 9 (format_label n) = py_str n"
  by (simp add: clean_label_def format_label_def label_prefix_def py_int_py_str)

end
